theory Spec2Isabelle
  imports Complex_Main
begin

section \<open>Python values shared by the modules\<close>

text \<open>
  Conventions of the embedding.
  \<^item> A Python \<open>float\<close> is a \<open>real\<close>: the formulas are those of the source, evaluated
    exactly. \<open>round(x, n)\<close> is rounding to \<open>n\<close> decimals, ties to the even neighbour.
  \<^item> A \<open>datetime\<close> is an \<open>int\<close>, the microseconds since \<open>datetime.min\<close>
    (0001-01-01T00:00:00); \<open>datetime.max\<close> is 9999-12-31T23:59:59.999999. The
    ISO string written by \<open>isoformat()\<close> and read back by \<open>fromisoformat\<close> denotes the
    same instant, so the stored timestamp is the instant itself.
  \<^item> \<open>datetime.now()\<close> is a parameter \<open>now\<close> of every function that reads the clock.
  \<^item> Arithmetic on dates that leaves the representable range raises \<open>OverflowError\<close>;
    a function that can raise returns \<open>py_error + 'a\<close>.
  \<^item> A \<open>dict\<close> whose iteration order matters is an association list in insertion
    order; a \<open>defaultdict(list)\<close> that is only read with \<open>.get(k, [])\<close> is a total
    function into lists.
\<close>

datatype py_error = OverflowError

definition datetime_max :: int where
  "datetime_max = 3652059 * 86400000000 - 1"

definition timedelta_days :: "int \<Rightarrow> py_error + int" where
  "timedelta_days d =
     (if 999999999 < \<bar>d\<bar> then Inl OverflowError else Inr (d * 86400000000))"

definition datetime_sub :: "int \<Rightarrow> int \<Rightarrow> py_error + int" where
  "datetime_sub t delta =
     (let r = t - delta
      in if r < 0 \<or> datetime_max < r then Inl OverflowError else Inr r)"

text \<open>\<open>datetime.now() - timedelta(days=days)\<close>, the first statement of every windowed query.\<close>

definition cutoff_date :: "int \<Rightarrow> int \<Rightarrow> py_error + int" where
  "cutoff_date now days =
     (case timedelta_days days of
        Inl e \<Rightarrow> Inl e
      | Inr delta \<Rightarrow> datetime_sub now delta)"

definition round_half_even :: "real \<Rightarrow> int" where
  "round_half_even y =
     (let f = \<lfloor>y\<rfloor>; d = y - of_int f
      in if d < 1 / 2 then f
         else if 1 / 2 < d then f + 1
         else if even f then f else f + 1)"

definition py_round :: "real \<Rightarrow> nat \<Rightarrow> real" where
  "py_round x ndigits = of_int (round_half_even (x * 10 ^ ndigits)) / 10 ^ ndigits"

text \<open>\<open>int(x)\<close> on a float truncates towards zero.\<close>

definition py_int :: "real \<Rightarrow> int" where
  "py_int x = (if 0 \<le> x then \<lfloor>x\<rfloor> else \<lceil>x\<rceil>)"

text \<open>\<open>sorted(xs, key=k, reverse=True)\<close>: CPython reverses the list, sorts it stably
  in ascending key order and reverses the result, so equal keys keep their original order.\<close>

definition sorted_reverse :: "('a \<Rightarrow> 'k::linorder) \<Rightarrow> 'a list \<Rightarrow> 'a list" where
  "sorted_reverse k xs = rev (sort_key k (rev xs))"

text \<open>\<open>xs[:n]\<close> for an integer \<open>n\<close>; a negative \<open>n\<close> counts from the end.\<close>

definition slice_to :: "int \<Rightarrow> 'a list \<Rightarrow> 'a list" where
  "slice_to n xs = (if 0 \<le> n then take (nat n) xs else take (nat (int (length xs) + n)) xs)"

section \<open>backend/alert\_system.py\<close>

datatype AlertSeverity = CRITICAL | HIGH | MEDIUM | LOW

datatype AlertType =
  SENTIMENT_CRITICAL | DOCTOR_BURNOUT | COMPLAINT_FILED | FOOD_QUALITY | ROOM_QUALITY
  | ISSUE_CLUSTER | SYSTEM_ERROR

text \<open>The values stored in a \<open>details\<close> dictionary, and the pieces of an f-string message
  (an interpolated number is kept as the number).\<close>

datatype detail = DNum real | DStr string | DNone

datatype piece = Lit string | Num real

record Alert =
  alert_id :: string
  alert_type :: AlertType
  severity :: AlertSeverity
  message :: "piece list"
  details :: "(string \<times> detail) list"
  created_at :: int
  acknowledged :: bool
  acknowledged_at :: "int option"
  acknowledged_by :: "string option"

text \<open>\<open>Alert.__init__\<close>. The id is \<open>"ALT_"\<close> followed by the rendering \<open>stamp\<close> of the
  clock reading; \<open>now\<close> is the second clock reading.\<close>

definition new_Alert ::
  "AlertType \<Rightarrow> AlertSeverity \<Rightarrow> piece list \<Rightarrow> (string \<times> detail) list \<Rightarrow> string \<Rightarrow> int \<Rightarrow> Alert"
where
  "new_Alert ty sev msg det stamp now =
     \<lparr>alert_id = ''ALT_'' @ stamp, alert_type = ty, severity = sev, message = msg,
      details = det, created_at = now, acknowledged = False,
      acknowledged_at = None, acknowledged_by = None\<rparr>"

text \<open>\<open>Alert.acknowledge\<close>: three unconditional assignments.\<close>

definition acknowledge :: "Alert \<Rightarrow> string \<Rightarrow> int \<Rightarrow> Alert" where
  "acknowledge a user_id now =
     a\<lparr>acknowledged := True, acknowledged_at := Some now, acknowledged_by := Some user_id\<rparr>"

record threshold_config =
  sentiment_critical :: real
  sentiment_warning :: real
  burnout_critical :: real
  burnout_high :: real
  complaint_critical :: real
  food_quality_critical :: real
  room_quality_critical :: real
  issue_cluster_critical :: real

text \<open>The state of an \<open>AlertManager\<close>. The registered handlers are called on creation
  inside \<open>try/except\<close> and their result is dropped; they are not part of the state here.\<close>

record AlertManager =
  alerts :: "Alert list"
  thresholds :: threshold_config

definition new_AlertManager :: AlertManager where
  "new_AlertManager =
     \<lparr>alerts = [],
      thresholds = \<lparr>sentiment_critical = - 0.7, sentiment_warning = - 0.4,
                     burnout_critical = 0.7, burnout_high = 0.5, complaint_critical = 1,
                     food_quality_critical = 2.0, room_quality_critical = 2.0,
                     issue_cluster_critical = 5\<rparr>\<rparr>"

definition create_alert ::
  "AlertManager \<Rightarrow> AlertType \<Rightarrow> AlertSeverity \<Rightarrow> piece list \<Rightarrow> (string \<times> detail) list
     \<Rightarrow> string \<Rightarrow> int \<Rightarrow> Alert \<times> AlertManager"
where
  "create_alert m ty sev msg det stamp now =
     (let a = new_Alert ty sev msg det stamp now
      in (a, m\<lparr>alerts := alerts m @ [a]\<rparr>))"

definition check_food_quality_alert ::
  "AlertManager \<Rightarrow> real \<Rightarrow> string \<Rightarrow> int \<Rightarrow> Alert option \<times> AlertManager"
where
  "check_food_quality_alert m quality_score stamp now =
     (if quality_score < food_quality_critical (thresholds m)
      then (let (a, m') = create_alert m FOOD_QUALITY HIGH
                            [Lit ''CRITICAL: Food quality issue reported (Score: '',
                             Num quality_score, Lit '')'']
                            [(''quality_score'', DNum quality_score)] stamp now
            in (Some a, m'))
      else (None, m))"

definition check_room_quality_alert ::
  "AlertManager \<Rightarrow> string \<Rightarrow> real \<Rightarrow> string \<Rightarrow> int \<Rightarrow> Alert option \<times> AlertManager"
where
  "check_room_quality_alert m room cleanliness_score stamp now =
     (if cleanliness_score < room_quality_critical (thresholds m)
      then (let (a, m') = create_alert m ROOM_QUALITY HIGH
                            [Lit ''CRITICAL: Room '', Lit room,
                             Lit '' cleanliness issue (Score: '', Num cleanliness_score, Lit '')'']
                            [(''room_id'', DStr room), (''cleanliness_score'', DNum cleanliness_score)]
                            stamp now
            in (Some a, m'))
      else (None, m))"

text \<open>The key of the sort in \<open>get_active_alerts\<close>.\<close>

fun severity_rank :: "AlertSeverity \<Rightarrow> nat" where
  "severity_rank CRITICAL = 0"
| "severity_rank HIGH = 1"
| "severity_rank MEDIUM = 2"
| "severity_rank LOW = 3"

text \<open>\<open>get_active_alerts\<close>. \<open>to_dict\<close> copies the nine fields, so the returned
  dictionaries are the records themselves.\<close>

definition get_active_alerts :: "AlertManager \<Rightarrow> AlertSeverity option \<Rightarrow> Alert list" where
  "get_active_alerts m sev =
     (let active_alerts = filter (\<lambda>a. \<not> acknowledged a) (alerts m);
          active_alerts = (case sev of
                             None \<Rightarrow> active_alerts
                           | Some s \<Rightarrow> filter (\<lambda>a. severity a = s) active_alerts)
      in sorted_reverse (\<lambda>x. severity_rank (severity x)) active_alerts)"

text \<open>\<open>acknowledge_alert\<close>: the loop stops at the first alert with the id.\<close>

fun acknowledge_first :: "Alert list \<Rightarrow> string \<Rightarrow> string \<Rightarrow> int \<Rightarrow> bool \<times> Alert list" where
  "acknowledge_first [] aid user_id now = (False, [])"
| "acknowledge_first (a # as) aid user_id now =
     (if alert_id a = aid then (True, acknowledge a user_id now # as)
      else (let (r, as') = acknowledge_first as aid user_id now in (r, a # as')))"

definition acknowledge_alert ::
  "AlertManager \<Rightarrow> string \<Rightarrow> string \<Rightarrow> int \<Rightarrow> bool \<times> AlertManager"
where
  "acknowledge_alert m aid user_id now =
     (let (r, as') = acknowledge_first (alerts m) aid user_id now
      in (r, m\<lparr>alerts := as'\<rparr>))"

section \<open>facility\_monitor.py\<close>

text \<open>The alert dictionary built by the two submit functions; only the room variant
  has the key \<open>room_id\<close>.\<close>

record facility_alert =
  fa_type :: string
  fa_severity :: string
  fa_room_id :: "string option"
  fa_message :: "piece list"
  fa_timestamp :: int

record food_review =
  fr_review_id :: string
  quality_score :: real
  fr_aspects :: "(string \<times> real) list"
  fr_comments :: string
  fr_submitted_date :: int
  fr_status :: string

record room_review =
  rr_review_id :: string
  rr_room_id :: string
  cleanliness_score :: real
  rr_aspects :: "(string \<times> real) list"
  rr_comments :: string
  rr_submitted_date :: int
  rr_status :: string

record FacilityQualityMonitor =
  food_reviews :: "string \<Rightarrow> food_review list"
  room_reviews :: "string \<Rightarrow> room_review list"

record submit_result =
  sr_status :: string
  sr_review_id :: string
  sr_room_id :: "string option"
  sr_alert :: "facility_alert option"

text \<open>\<open>submit_food_quality_review\<close>; \<open>now\<close> and \<open>now'\<close> are the two clock readings.\<close>

definition submit_food_quality_review ::
  "FacilityQualityMonitor \<Rightarrow> string \<Rightarrow> real \<Rightarrow> (string \<times> real) list \<Rightarrow> string \<Rightarrow> int \<Rightarrow> int
     \<Rightarrow> submit_result \<times> FacilityQualityMonitor"
where
  "submit_food_quality_review fm rid score aspects comments now now' =
     (let review = \<lparr>fr_review_id = rid, quality_score = score, fr_aspects = aspects,
                     fr_comments = comments, fr_submitted_date = now, fr_status = ''ACTIVE''\<rparr>;
          fm' = fm\<lparr>food_reviews := (food_reviews fm)(rid := food_reviews fm rid @ [review])\<rparr>;
          alert = (if score \<le> 2
                   then Some \<lparr>fa_type = ''FOOD_QUALITY_CRITICAL'', fa_severity = ''HIGH'',
                              fa_room_id = None,
                              fa_message = [Lit ''Critical food quality issue reported (Score: '',
                                            Num score, Lit '')''],
                              fa_timestamp = now'\<rparr>
                   else None)
      in (\<lparr>sr_status = ''submitted'', sr_review_id = rid, sr_room_id = None, sr_alert = alert\<rparr>,
          fm'))"

definition submit_room_quality_review ::
  "FacilityQualityMonitor \<Rightarrow> string \<Rightarrow> string \<Rightarrow> real \<Rightarrow> (string \<times> real) list \<Rightarrow> string
     \<Rightarrow> int \<Rightarrow> int \<Rightarrow> submit_result \<times> FacilityQualityMonitor"
where
  "submit_room_quality_review fm rid room score aspects comments now now' =
     (let review = \<lparr>rr_review_id = rid, rr_room_id = room, cleanliness_score = score,
                     rr_aspects = aspects, rr_comments = comments, rr_submitted_date = now,
                     rr_status = ''ACTIVE''\<rparr>;
          fm' = fm\<lparr>room_reviews := (room_reviews fm)(room := room_reviews fm room @ [review])\<rparr>;
          alert = (if score \<le> 2
                   then Some \<lparr>fa_type = ''ROOM_QUALITY_CRITICAL'', fa_severity = ''HIGH'',
                              fa_room_id = Some room,
                              fa_message = [Lit ''Critical room cleanliness issue in room '', Lit room,
                                            Lit '' (Score: '', Num score, Lit '')''],
                              fa_timestamp = now'\<rparr>
                   else None)
      in (\<lparr>sr_status = ''submitted'', sr_review_id = rid, sr_room_id = Some room,
           sr_alert = alert\<rparr>,
          fm'))"

section \<open>backend/doctor\_analyzer.py\<close>

text \<open>\<open>d[k] += 1\<close> on a \<open>defaultdict(int)\<close>, the dictionary kept in insertion order.\<close>

fun dict_incr :: "'k \<Rightarrow> ('k \<times> nat) list \<Rightarrow> ('k \<times> nat) list" where
  "dict_incr k [] = [(k, 1)]"
| "dict_incr k ((k', n) # kvs) =
     (if k' = k then (k', n + 1) # kvs else (k', n) # dict_incr k kvs)"

text \<open>\<open>d[k] = v\<close> on a \<open>dict\<close>: an existing key keeps its position.\<close>

fun dict_set :: "'k \<Rightarrow> 'v \<Rightarrow> ('k \<times> 'v) list \<Rightarrow> ('k \<times> 'v) list" where
  "dict_set k v [] = [(k, v)]"
| "dict_set k v ((k', v') # kvs) =
     (if k' = k then (k', v) # kvs else (k', v') # dict_set k v kvs)"

record duty_shift =
  shift_date :: string
  hours :: real
  patient_count :: int
  emergency_cases :: int
  workload_index :: real
  shift_timestamp :: int

record complaint =
  complaint_id :: string
  c_doctor_id :: string
  c_type :: string
  c_description :: string
  c_severity :: string
  c_status :: string
  filed_date :: int
  resolved_date :: "int option"

record sentiment_sample =
  score :: real
  s_review_id :: "string option"
  s_timestamp :: int

record DoctorAnalyzer =
  duty_logs :: "string \<Rightarrow> duty_shift list"
  complaints :: "string \<Rightarrow> complaint list"
  sentiment_scores :: "string \<Rightarrow> sentiment_sample list"

definition new_DoctorAnalyzer :: DoctorAnalyzer where
  "new_DoctorAnalyzer =
     \<lparr>duty_logs = (\<lambda>_. []), complaints = (\<lambda>_. []), sentiment_scores = (\<lambda>_. [])\<rparr>"

definition register_duty_shift ::
  "DoctorAnalyzer \<Rightarrow> string \<Rightarrow> string \<Rightarrow> real \<Rightarrow> int \<Rightarrow> int \<Rightarrow> int \<Rightarrow> DoctorAnalyzer"
where
  "register_duty_shift da doctor date h patients emergencies now =
     (let shift_info = \<lparr>shift_date = date, hours = h, patient_count = patients,
                         emergency_cases = emergencies,
                         workload_index = (if 0 < h then of_int patients / h else 0),
                         shift_timestamp = now\<rparr>
      in da\<lparr>duty_logs := (duty_logs da)(doctor := duty_logs da doctor @ [shift_info])\<rparr>)"

definition track_sentiment ::
  "DoctorAnalyzer \<Rightarrow> string \<Rightarrow> real \<Rightarrow> string option \<Rightarrow> int \<Rightarrow> DoctorAnalyzer"
where
  "track_sentiment da doctor sentiment_score rid now =
     da\<lparr>sentiment_scores := (sentiment_scores da)
           (doctor := sentiment_scores da doctor
                        @ [\<lparr>score = sentiment_score, s_review_id = rid, s_timestamp = now\<rparr>])\<rparr>"

record burnout_metrics =
  average_hours_per_shift :: real
  average_patients_per_shift :: real
  total_emergency_cases :: int
  total_shifts_analyzed :: nat
  m_hours_factor :: real
  m_patient_factor :: real
  m_emergency_factor :: real

text \<open>The report of \<open>calculate_burnout_risk\<close>; \<open>metrics = None\<close> is the empty
  dictionary, \<open>recommendations = None\<close> the absent key.\<close>

record burnout_report =
  b_doctor_id :: string
  risk_level :: string
  risk_score :: real
  metrics :: "burnout_metrics option"
  recommendations :: "string list option"

text \<open>The three weighted factors and their sum, as functions of the per-shift averages.\<close>

definition hours_factor :: "real \<Rightarrow> real" where
  "hours_factor avg_hours_per_shift = min (avg_hours_per_shift / 12) 1.0 * 0.4"

definition patient_factor :: "real \<Rightarrow> real" where
  "patient_factor avg_patients_per_shift = min (avg_patients_per_shift / 30) 1.0 * 0.35"

definition emergency_factor :: "real \<Rightarrow> real" where
  "emergency_factor avg_emergencies_per_shift = min (avg_emergencies_per_shift / 5) 1.0 * 0.25"

definition burnout_score :: "real \<Rightarrow> real \<Rightarrow> real \<Rightarrow> real" where
  "burnout_score avg_hours_per_shift avg_patients_per_shift avg_emergencies_per_shift =
     hours_factor avg_hours_per_shift + patient_factor avg_patients_per_shift
       + emergency_factor avg_emergencies_per_shift"

definition get_burnout_recommendations :: "real \<Rightarrow> string list" where
  "get_burnout_recommendations s =
     (if 0.7 < s then
        [''URGENT: Reduce work schedule immediately'', ''Schedule wellness check-up'',
         ''Consider temporary leave'', ''Assign additional support staff'']
      else if 0.5 < s then
        [''Monitor workload closely'', ''Reduce patient load by 20-30%'',
         ''Encourage breaks and time off'', ''Provide mental health support'']
      else if 0.3 < s then
        [''Continue current schedule with monitoring'', ''Encourage regular breaks'',
         ''Schedule monthly wellness check-ins'']
      else [''Current workload is sustainable''])"

definition calculate_burnout_risk ::
  "DoctorAnalyzer \<Rightarrow> string \<Rightarrow> int \<Rightarrow> int \<Rightarrow> py_error + burnout_report"
where
  "calculate_burnout_risk da doctor days_window now =
     (let recent_shifts = duty_logs da doctor
      in if recent_shifts = [] then
           Inr \<lparr>b_doctor_id = doctor, risk_level = ''NO_DATA'', risk_score = 0,
                metrics = None, recommendations = None\<rparr>
         else
           (case cutoff_date now days_window of
              Inl e \<Rightarrow> Inl e
            | Inr cutoff \<Rightarrow>
                (let recent = filter (\<lambda>s. cutoff < shift_timestamp s) recent_shifts
                 in if recent = [] then
                      Inr \<lparr>b_doctor_id = doctor, risk_level = ''LOW'', risk_score = 0,
                           metrics = None, recommendations = None\<rparr>
                    else
                      (let total_hours = sum_list (map hours recent);
                           total_patients = sum_list (map patient_count recent);
                           total_emergencies = sum_list (map emergency_cases recent);
                           num_shifts = length recent;
                           avg_hours_per_shift =
                             (if 0 < num_shifts then total_hours / real num_shifts else 0);
                           avg_patients_per_shift =
                             (if 0 < num_shifts then of_int total_patients / real num_shifts else 0);
                           hf = hours_factor avg_hours_per_shift;
                           pf = patient_factor avg_patients_per_shift;
                           ef = emergency_factor (of_int total_emergencies / real num_shifts);
                           bs = burnout_score avg_hours_per_shift avg_patients_per_shift
                                  (of_int total_emergencies / real num_shifts);
                           level = (if 0.7 < bs then ''CRITICAL''
                                    else if 0.5 < bs then ''HIGH''
                                    else if 0.3 < bs then ''MODERATE''
                                    else ''LOW'')
                       in Inr \<lparr>b_doctor_id = doctor, risk_level = level,
                               risk_score = py_round bs 3,
                               metrics = Some
                                 \<lparr>average_hours_per_shift = py_round avg_hours_per_shift 2,
                                  average_patients_per_shift = py_round avg_patients_per_shift 2,
                                  total_emergency_cases = total_emergencies,
                                  total_shifts_analyzed = num_shifts,
                                  m_hours_factor = py_round hf 3,
                                  m_patient_factor = py_round pf 3,
                                  m_emergency_factor = py_round ef 3\<rparr>,
                               recommendations = Some (get_burnout_recommendations bs)\<rparr>))))"

definition file_complaint ::
  "DoctorAnalyzer \<Rightarrow> string \<Rightarrow> string \<Rightarrow> string \<Rightarrow> string \<Rightarrow> string \<Rightarrow> int \<Rightarrow> DoctorAnalyzer"
where
  "file_complaint da doctor ty descr sev stamp now =
     (let c = \<lparr>complaint_id = ''CMPL_'' @ doctor @ ''_'' @ stamp, c_doctor_id = doctor,
                c_type = ty, c_description = descr, c_severity = sev, c_status = ''OPEN'',
                filed_date = now, resolved_date = None\<rparr>
      in da\<lparr>complaints := (complaints da)(doctor := complaints da doctor @ [c])\<rparr>)"

definition calculate_complaint_status :: "complaint list \<Rightarrow> string" where
  "calculate_complaint_status cs =
     (if cs = [] then ''GOOD''
      else (let unresolved = length (filter (\<lambda>c. c_status c = ''OPEN'') cs);
                critical = length (filter (\<lambda>c. c_severity c = ''CRITICAL'') cs)
            in if 0 < critical \<or> 3 < unresolved then ''CRITICAL''
               else if 1 < unresolved then ''CONCERNING''
               else ''ACCEPTABLE''))"

text \<open>The report of \<open>get_complaint_history\<close>; the last four keys are absent (\<open>None\<close>)
  when the doctor has no complaint.\<close>

record complaint_report =
  cr_doctor_id :: string
  total_complaints :: nat
  complaint_patterns :: "(string \<times> nat) list"
  severity_distribution :: "(string \<times> nat) list option"
  resolution_rate :: "real option"
  recent_complaints :: "complaint list option"
  complaint_status :: "string option"

definition get_complaint_history :: "DoctorAnalyzer \<Rightarrow> string \<Rightarrow> complaint_report" where
  "get_complaint_history da doctor =
     (let cs = complaints da doctor
      in if cs = [] then
           \<lparr>cr_doctor_id = doctor, total_complaints = 0, complaint_patterns = [],
            severity_distribution = None, resolution_rate = None, recent_complaints = None,
            complaint_status = None\<rparr>
         else
           (let complaint_types = fold (\<lambda>c d. dict_incr (c_type c) d) cs [];
                severity_dist = fold (\<lambda>c d. dict_incr (c_severity c) d) cs [];
                resolved = length (filter (\<lambda>c. c_status c = ''RESOLVED'') cs);
                rate = real resolved / real (length cs) * 100
            in \<lparr>cr_doctor_id = doctor, total_complaints = length cs,
                complaint_patterns = complaint_types,
                severity_distribution = Some severity_dist,
                resolution_rate = Some (py_round rate 2),
                recent_complaints = Some (drop (length cs - 5) cs),
                complaint_status = Some (calculate_complaint_status cs)\<rparr>))"

definition get_rating_status :: "real \<Rightarrow> string" where
  "get_rating_status r =
     (if 4.5 \<le> r then ''EXCELLENT''
      else if 4.0 \<le> r then ''VERY_GOOD''
      else if 3.5 \<le> r then ''GOOD''
      else if 3.0 \<le> r then ''FAIR''
      else ''POOR'')"

text \<open>The report of \<open>get_doctor_rating\<close>; \<open>average_sentiment_score\<close> and \<open>status\<close> are
  absent when the doctor has no sample.\<close>

record rating_report =
  rt_doctor_id :: string
  rating :: real
  rt_total_reviews :: nat
  average_sentiment_score :: "real option"
  rating_distribution :: "(int \<times> nat) list"
  status :: "string option"

text \<open>The affine map of a sentiment score to the rating scale, and the histogram bin.\<close>

definition to_rating :: "real \<Rightarrow> real" where
  "to_rating s = ((s + 1) / 2) * 4 + 1"

definition bin_num :: "real \<Rightarrow> int" where
  "bin_num s = min 5 (max 1 (py_int (to_rating s)))"

definition get_doctor_rating :: "DoctorAnalyzer \<Rightarrow> string \<Rightarrow> rating_report" where
  "get_doctor_rating da doctor =
     (let sentiments = sentiment_scores da doctor
      in if sentiments = [] then
           \<lparr>rt_doctor_id = doctor, rating = 0, rt_total_reviews = 0,
            average_sentiment_score = None, rating_distribution = [], status = None\<rparr>
         else
           (let scores = map score sentiments;
                avg_score = sum_list scores / real (length scores);
                r = to_rating avg_score;
                rating_dist = fold (\<lambda>s d. dict_incr (bin_num s) d) scores []
            in \<lparr>rt_doctor_id = doctor, rating = py_round r 2,
                rt_total_reviews = length sentiments,
                average_sentiment_score = Some (py_round avg_score 3),
                rating_distribution = rating_dist,
                status = Some (get_rating_status r)\<rparr>))"

record performance_dashboard =
  pd_doctor_id :: string
  overall_performance_score :: real
  burnout_analysis :: burnout_report
  complaint_analysis :: complaint_report
  patient_rating :: rating_report
  dashboard_generated :: int

text \<open>The composite of \<open>get_doctor_performance_dashboard\<close>, from the three reports.\<close>

definition performance_score :: "rating_report \<Rightarrow> burnout_report \<Rightarrow> complaint_report \<Rightarrow> real" where
  "performance_score rt b c =
     (rating rt / 5 * 100) * 0.5
     + ((1 - risk_score b) * 100) * 0.3
     + (100 - min (real (total_complaints c) * 5) 100) * 0.2"

text \<open>\<open>get_doctor_performance_dashboard\<close>: the burnout query uses the default window of
  30 days; \<open>now\<close> and \<open>now'\<close> are the clock readings of the query and of the report.\<close>

definition get_doctor_performance_dashboard ::
  "DoctorAnalyzer \<Rightarrow> string \<Rightarrow> int \<Rightarrow> int \<Rightarrow> py_error + performance_dashboard"
where
  "get_doctor_performance_dashboard da doctor now now' =
     (case calculate_burnout_risk da doctor 30 now of
        Inl e \<Rightarrow> Inl e
      | Inr burnout \<Rightarrow>
          (let cs = get_complaint_history da doctor;
               rt = get_doctor_rating da doctor
           in Inr \<lparr>pd_doctor_id = doctor,
                   overall_performance_score = py_round (performance_score rt burnout cs) 2,
                   burnout_analysis = burnout, complaint_analysis = cs, patient_rating = rt,
                   dashboard_generated = now'\<rparr>))"

section \<open>backend/dashboard.py\<close>

text \<open>A ledger entry written by \<open>add_review_analysis\<close>. The emotion map, the language and
  the optional metadata keys are carried by no query below and are left out.\<close>

record review =
  review_id :: string
  sentiment_score :: real
  sentiment_label :: string
  category :: string
  review_keywords :: "string list"
  timestamp :: int













text \<open>Strings: \<open>kw in s\<close> is the substring test; \<open>s.lower()\<close> maps the letters A to Z
  (the characters of the model are bytes).\<close>

fun starts_with :: "string \<Rightarrow> string \<Rightarrow> bool" where
  "starts_with [] s = True"
| "starts_with (k # ks) [] = False"
| "starts_with (k # ks) (c # cs) = (k = c \<and> starts_with ks cs)"

fun py_in :: "string \<Rightarrow> string \<Rightarrow> bool" where
  "py_in kw [] = (kw = [])"
| "py_in kw (c # cs) = (starts_with kw (c # cs) \<or> py_in kw cs)"

definition lower_char :: "char \<Rightarrow> char" where
  "lower_char c =
     (case map_of (zip ''ABCDEFGHIJKLMNOPQRSTUVWXYZ'' ''abcdefghijklmnopqrstuvwxyz'') c of
        Some l \<Rightarrow> l
      | None \<Rightarrow> c)"

definition lower :: "string \<Rightarrow> string" where
  "lower s = map lower_char s"

record issue_cluster =
  cluster_id :: nat
  primary_issue :: string
  frequency :: nat
  related_reviews :: "string list"
  ic_severity :: string
  recommendation :: string

text \<open>The report of \<open>cluster_issues\<close>; each of its three shapes leaves some keys absent.\<close>

record cluster_report =
  clusters :: "issue_cluster list"
  clustering_method :: "string option"
  cl_total_reviews :: "nat option"
  cl_message :: "string option"
  total_negative_reviews :: "nat option"

definition calculate_cluster_severity :: "string list \<Rightarrow> string" where
  "calculate_cluster_severity review_ids =
     (if 10 \<le> length review_ids then ''CRITICAL''
      else if 5 \<le> length review_ids then ''HIGH''
      else if 3 \<le> length review_ids then ''MEDIUM''
      else ''LOW'')"

definition get_cluster_recommendation :: "string \<Rightarrow> string" where
  "get_cluster_recommendation issue =
     (let issue_lower = lower issue
      in if list_ex (\<lambda>word. py_in word issue_lower) [''staff'', ''doctor'', ''nurse'']
         then ''Review staff training and conduct 1-on-1 meetings''
         else if list_ex (\<lambda>word. py_in word issue_lower) [''clean'', ''dirty'', ''hygiene'']
         then ''Increase housekeeping frequency and conduct audits''
         else if list_ex (\<lambda>word. py_in word issue_lower) [''food'', ''meal'', ''diet'']
         then ''Review food preparation procedures with catering team''
         else if list_ex (\<lambda>word. py_in word issue_lower) [''wait'', ''delay'', ''slow'']
         then ''Review process efficiency and resource allocation''
         else if list_ex (\<lambda>word. py_in word issue_lower) [''pain'', ''discomfort'', ''ache'']
         then ''Review pain management protocols with medical team''
         else ''Investigate and implement corrective measures'')"

text \<open>The two dictionaries filled by the loop over the negative reviews.\<close>

definition count_keywords :: "review list \<Rightarrow> (string \<times> nat) list" where
  "count_keywords negative_reviews =
     fold (\<lambda>r d. fold dict_incr (review_keywords r) d) negative_reviews []"

definition keyword_map :: "review list \<Rightarrow> (string \<times> string list) list" where
  "keyword_map negative_reviews =
     fold (\<lambda>r m. dict_set (review_id r) (review_keywords r) m) negative_reviews []"

definition make_cluster ::
  "(string \<times> string list) list \<Rightarrow> nat \<times> string \<times> nat \<Rightarrow> issue_cluster"
where
  "make_cluster review_keyword_map e =
     (case e of (idx, keyword, count) \<Rightarrow>
        (let related = map fst (filter (\<lambda>(rid, kws). keyword \<in> set kws) review_keyword_map)
         in \<lparr>cluster_id = idx + 1, primary_issue = keyword, frequency = count,
             related_reviews = related,
             ic_severity = calculate_cluster_severity related,
             recommendation = get_cluster_recommendation keyword\<rparr>))"

definition cluster_issues :: "review list \<Rightarrow> int \<Rightarrow> cluster_report" where
  "cluster_issues reviews max_clusters =
     (if length reviews < 3 then
        \<lparr>clusters = [], clustering_method = Some ''keyword_based'', cl_total_reviews = None,
         cl_message = None, total_negative_reviews = None\<rparr>
      else
        (let negative_reviews = filter (\<lambda>r. sentiment_label r = ''NEGATIVE'') reviews
         in if negative_reviews = [] then
              \<lparr>clusters = [], clustering_method = None,
               cl_total_reviews = Some (length reviews),
               cl_message = Some ''No negative reviews to cluster'',
               total_negative_reviews = None\<rparr>
            else
              (let all_keywords = count_keywords negative_reviews;
                   review_keyword_map = keyword_map negative_reviews;
                   sorted_keywords = sorted_reverse snd all_keywords;
                   top = slice_to max_clusters sorted_keywords;
                   issue_clusters =
                     map (make_cluster review_keyword_map) (zip [0 ..< length top] top)
               in \<lparr>clusters = issue_clusters,
                   clustering_method = Some ''keyword_frequency_based'',
                   cl_total_reviews = None, cl_message = None,
                   total_negative_reviews = Some (length negative_reviews)\<rparr>)))"

text \<open>The ledger of the cluster example: six NEGATIVE reviews that all carry the keyword
  \<open>wait\<close> and one further keyword each, shared with no other review.\<close>

definition wait_ledger :: "review list" where
  "wait_ledger =
     [\<lparr>review_id = ''r1'', sentiment_score = - 0.5, sentiment_label = ''NEGATIVE'',
       category = ''general'', review_keywords = [''wait'', ''long''],
       timestamp = 63900000000000001\<rparr>,
      \<lparr>review_id = ''r2'', sentiment_score = - 0.5, sentiment_label = ''NEGATIVE'',
       category = ''general'', review_keywords = [''wait'', ''hours''],
       timestamp = 63900000000000002\<rparr>,
      \<lparr>review_id = ''r3'', sentiment_score = - 0.5, sentiment_label = ''NEGATIVE'',
       category = ''general'', review_keywords = [''wait'', ''queue''],
       timestamp = 63900000000000003\<rparr>,
      \<lparr>review_id = ''r4'', sentiment_score = - 0.5, sentiment_label = ''NEGATIVE'',
       category = ''general'', review_keywords = [''wait'', ''forever''],
       timestamp = 63900000000000004\<rparr>,
      \<lparr>review_id = ''r5'', sentiment_score = - 0.5, sentiment_label = ''NEGATIVE'',
       category = ''general'', review_keywords = [''wait'', ''appointment''],
       timestamp = 63900000000000005\<rparr>,
      \<lparr>review_id = ''r6'', sentiment_score = - 0.5, sentiment_label = ''NEGATIVE'',
       category = ''general'', review_keywords = [''wait'', ''reception''],
       timestamp = 63900000000000006\<rparr>]"

section \<open>sentiment\_analyzer.py\<close>

text \<open>The libraries behind the analyzer are parameters: the translator (absent when the
  import or the constructor failed), VADER, TextBlob and the transformer pipeline (absent
  when it could not be loaded). A call that raises inside a \<open>try\<close> returns the
  \<open>raises\<close> value of its result type.\<close>

datatype detect_result = Detect_raises | Detect_falsy | Detect_lang string

datatype translate_result = Translate_raises | Translate_dict "string option" | Translate_other string

record translator =
  detect :: "string \<Rightarrow> detect_result"
  translate :: "string \<Rightarrow> string \<Rightarrow> translate_result"

record vader_scores =
  compound :: real
  vs_positive :: real
  vs_negative :: real
  vs_neutral :: real

record textblob_scores =
  polarity :: real
  subjectivity :: real

record transformer_scores =
  ts_label :: "string option"
  ts_positive :: "real option"
  ts_negative :: "real option"
  ts_score :: "real option"

record SentimentAnalyzer =
  HAS_GOOGLETRANS :: bool
  sa_translator :: "translator option"
  vader_polarity_scores :: "string \<Rightarrow> vader_scores"
  textblob_sentiment :: "string \<Rightarrow> textblob_scores"
  transformer :: "(string \<Rightarrow> (string \<times> real) option) option"

definition detect_language :: "SentimentAnalyzer \<Rightarrow> string \<Rightarrow> string" where
  "detect_language sa text =
     (case sa_translator sa of
        Some t \<Rightarrow>
          (if HAS_GOOGLETRANS sa then
             (case detect t text of
                Detect_lang l \<Rightarrow> l
              | Detect_falsy \<Rightarrow> ''en''
              | Detect_raises \<Rightarrow> ''en'')
           else ''en'')
      | None \<Rightarrow> ''en'')"

text \<open>\<open>translate_to_english\<close>: the text is returned unchanged unless a translator is
  present, the language is known and not English, and the call succeeds.\<close>

definition translate_to_english :: "SentimentAnalyzer \<Rightarrow> string \<Rightarrow> string option \<Rightarrow> string" where
  "translate_to_english sa text source_lang =
     (if source_lang = Some ''en'' then text
      else
        (let source_lang =
               (if source_lang = None \<and> sa_translator sa \<noteq> None
                then Some (detect_language sa text) else source_lang)
         in (case source_lang of
               None \<Rightarrow> text
             | Some src \<Rightarrow>
                 (if src = ''en'' then text
                  else
                    (case sa_translator sa of
                       Some t \<Rightarrow>
                         (if HAS_GOOGLETRANS sa then
                            (case translate t text src of
                               Translate_dict (Some translated) \<Rightarrow> translated
                             | Translate_dict None \<Rightarrow> text
                             | Translate_other translated \<Rightarrow> translated
                             | Translate_raises \<Rightarrow> text)
                          else text)
                     | None \<Rightarrow> text)))))"

definition analyze_with_transformer :: "SentimentAnalyzer \<Rightarrow> string \<Rightarrow> transformer_scores" where
  "analyze_with_transformer sa text =
     (case transformer sa of
        None \<Rightarrow> \<lparr>ts_label = None, ts_positive = Some 0.5, ts_negative = Some 0.5,
                  ts_score = Some 0.0\<rparr>
      | Some pipeline \<Rightarrow>
          (case pipeline (take 512 text) of
             Some (label, s) \<Rightarrow>
               \<lparr>ts_label = Some (lower label), ts_positive = None, ts_negative = None,
                ts_score = Some (if lower label = ''positive'' then s else - s)\<rparr>
           | None \<Rightarrow>
               \<lparr>ts_label = Some ''neutral'', ts_positive = None, ts_negative = None,
                ts_score = Some 0.0\<rparr>))"

definition negative_keywords :: "string list" where
  "negative_keywords =
     [''bad'', ''poor'', ''terrible'', ''worst'', ''horrible'', ''disappointed'', ''awful'',
      ''pain'', ''delay'', ''slow'', ''rude'', ''angry'', ''error'', ''problem'', ''issue'',
      ''needs improvement'']"

text \<open>The result of \<open>comprehensive_analysis\<close>. The emotion profile and the keyword list
  (built on the NLTK tokenizer) do not enter the score or the label and are left out.\<close>

record analysis =
  original_language :: string
  translated_text :: string
  overall_score :: real
  a_sentiment_label :: string
  confidence :: real
  vader :: vader_scores
  textblob :: textblob_scores
  a_transformer :: transformer_scores
  a_subjectivity :: real

definition comprehensive_analysis :: "SentimentAnalyzer \<Rightarrow> string \<Rightarrow> analysis" where
  "comprehensive_analysis sa text =
     (let lang = detect_language sa text;
          english_text = translate_to_english sa text (Some lang);
          vs = vader_polarity_scores sa english_text;
          tb = textblob_sentiment sa english_text;
          tr = analyze_with_transformer sa english_text;
          overall = compound vs * 0.4 + polarity tb * 0.3
                    + (case ts_score tr of Some s \<Rightarrow> s | None \<Rightarrow> 0) * 0.3;
          neg_count = length (filter (\<lambda>kw. py_in kw (lower english_text)) negative_keywords);
          label = (if 0.3 < overall then ''POSITIVE''
                   else if overall < - 0.3
                           \<or> (0 < neg_count \<and> (compound vs < 0 \<or> polarity tb < 0))
                   then ''NEGATIVE''
                   else ''NEUTRAL'')
      in \<lparr>original_language = lang, translated_text = english_text,
          overall_score = py_round overall 3, a_sentiment_label = label,
          confidence = py_round \<bar>overall\<bar> 3, vader = vs, textblob = tb, a_transformer = tr,
          a_subjectivity = py_round (subjectivity tb) 3\<rparr>)"

section \<open>Rounding and dates\<close>

lemma round_half_even_of_int: "round_half_even (of_int k) = k"
  by (simp add: round_half_even_def)

lemma round_half_even_ge_floor: "\<lfloor>y\<rfloor> \<le> round_half_even y"
  by (simp add: round_half_even_def Let_def)

lemma round_half_even_le_floor: "round_half_even y \<le> \<lfloor>y\<rfloor> + 1"
  by (simp add: round_half_even_def Let_def)

lemma round_half_even_mono:
  assumes "x \<le> y"
  shows "round_half_even x \<le> round_half_even y"
proof (cases "\<lfloor>x\<rfloor> < \<lfloor>y\<rfloor>")
  case True
  have "round_half_even x \<le> \<lfloor>x\<rfloor> + 1"
    by (rule round_half_even_le_floor)
  also have "\<dots> \<le> \<lfloor>y\<rfloor>"
    using True by simp
  also have "\<dots> \<le> round_half_even y"
    by (rule round_half_even_ge_floor)
  finally show ?thesis .
next
  case False
  with assms have same: "\<lfloor>x\<rfloor> = \<lfloor>y\<rfloor>"
    using floor_mono [of x y] by linarith
  show ?thesis
    using assms unfolding round_half_even_def Let_def same by auto
qed

lemma py_round_mono: "x \<le> y \<Longrightarrow> py_round x n \<le> py_round y n"
  unfolding py_round_def
  by (intro divide_right_mono iffD2 [OF of_int_le_iff] round_half_even_mono mult_right_mono)
     simp_all


lemma py_round_of_int: "py_round (of_int k) n = of_int k"
proof -
  have "(of_int k :: real) * 10 ^ n = of_int (k * 10 ^ n)"
    by simp
  then have "round_half_even (of_int k * 10 ^ n) = k * 10 ^ n"
    using round_half_even_of_int by metis
  then show ?thesis
    by (simp add: py_round_def)
qed

lemma py_round_between:
  assumes "of_int a \<le> x" and "x \<le> of_int b"
  shows "of_int a \<le> py_round x n \<and> py_round x n \<le> of_int b"
  using py_round_mono [OF assms(1), of n] py_round_mono [OF assms(2), of n]
  by (simp add: py_round_of_int)

text \<open>The cutoff of a window is computed exactly when it is a representable date.\<close>

lemma cutoff_date_representable:
  assumes "0 \<le> now" and "now \<le> datetime_max"
    and "0 \<le> now - days * 86400000000" and "now - days * 86400000000 \<le> datetime_max"
  shows "cutoff_date now days = Inr (now - days * 86400000000)"
proof -
  have "\<bar>days\<bar> * 86400000000 \<le> datetime_max"
    using assms by (simp add: abs_if)
  then have "\<bar>days\<bar> \<le> 999999999"
    by (simp add: datetime_max_def)
  then show ?thesis
    using assms by (simp add: cutoff_date_def timedelta_days_def datetime_sub_def)
qed

section \<open>Alert ordering and thresholds\<close>

lemma sorted_reverse_set: "set (sorted_reverse k xs) = set xs"
  by (simp add: sorted_reverse_def)

lemma sorted_reverse_descending: "sorted (rev (map k (sorted_reverse k xs)))"
  by (simp add: sorted_reverse_def rev_map)

text \<open>What the query returns on every manager: the unacknowledged alerts, in descending
  order of the rank, that is with the rank 3 of \<open>LOW\<close> first and the rank 0 of
  \<open>CRITICAL\<close> last.\<close>

lemma get_active_alerts_descending_rank:
  "set (get_active_alerts m None) = {a \<in> set (alerts m). \<not> acknowledged a} \<and>
   sorted (rev (map (\<lambda>a. severity_rank (severity a)) (get_active_alerts m None)))"
  by (auto simp add: get_active_alerts_def sorted_reverse_set sorted_reverse_descending)

text \<open>
  Claim C1. \<open>get_active_alerts\<close> is claimed to return the unacknowledged alerts most severe
  first, so that four alerts of severities LOW, CRITICAL, MEDIUM, HIGH created in that
  order come back as CRITICAL, HIGH, MEDIUM, LOW. The source sorts on the rank
  (CRITICAL 0 up to LOW 3) with \<open>reverse=True\<close>: evaluated on these four alerts it returns
  them least severe first, LOW, MEDIUM, HIGH, CRITICAL.
\<close>

theorem get_active_alerts_four_alerts:
  "map severity
     (get_active_alerts
        (snd (create_alert
           (snd (create_alert
              (snd (create_alert
                 (snd (create_alert new_AlertManager SYSTEM_ERROR LOW [] [] ''1'' 1))
                 SYSTEM_ERROR CRITICAL [] [] ''2'' 2))
              SYSTEM_ERROR MEDIUM [] [] ''3'' 3))
           SYSTEM_ERROR HIGH [] [] ''4'' 4))
        None)
   = [LOW, MEDIUM, HIGH, CRITICAL]"
  by (simp add: get_active_alerts_def create_alert_def new_Alert_def new_AlertManager_def
      sorted_reverse_def Let_def)

text \<open>The facility monitor raises its signal for every score up to and including 2, and
  the manager's checks for every score strictly below the configured 2.0.\<close>

lemma submit_room_quality_review_alert:
  "sc \<le> 2 \<Longrightarrow>
   sr_alert (fst (submit_room_quality_review fm rid room sc aspects comments t t')) =
     Some \<lparr>fa_type = ''ROOM_QUALITY_CRITICAL'', fa_severity = ''HIGH'', fa_room_id = Some room,
           fa_message = [Lit ''Critical room cleanliness issue in room '', Lit room,
                         Lit '' (Score: '', Num sc, Lit '')''],
           fa_timestamp = t'\<rparr>"
  by (simp add: submit_room_quality_review_def Let_def)

lemma submit_food_quality_review_alert:
  "sc \<le> 2 \<Longrightarrow>
   sr_alert (fst (submit_food_quality_review fm rid sc aspects comments t t')) =
     Some \<lparr>fa_type = ''FOOD_QUALITY_CRITICAL'', fa_severity = ''HIGH'', fa_room_id = None,
           fa_message = [Lit ''Critical food quality issue reported (Score: '', Num sc, Lit '')''],
           fa_timestamp = t'\<rparr>"
  by (simp add: submit_food_quality_review_def Let_def)

lemma check_quality_alert_below:
  "sc < 2 \<Longrightarrow>
   map_option severity (fst (check_food_quality_alert new_AlertManager sc stamp now)) = Some HIGH \<and>
   map_option severity (fst (check_room_quality_alert new_AlertManager room sc stamp now)) = Some HIGH"
  by (simp add: check_food_quality_alert_def check_room_quality_alert_def new_AlertManager_def
      create_alert_def new_Alert_def Let_def)

text \<open>
  Claim C3. Every food or room quality submission with a score of at most 2 is claimed to
  produce a HIGH alert from the quality threshold check. At the score 2 itself the two
  checks of the alert manager compare with \<open><\<close> against the threshold 2.0, create nothing
  and leave the manager unchanged, while the two submit functions of the facility monitor
  compare with \<open>\<le>\<close> and do raise their signal at the same score.
\<close>

theorem quality_checks_at_score_two:
  "check_food_quality_alert new_AlertManager 2 stamp now = (None, new_AlertManager)
   \<and> check_room_quality_alert new_AlertManager room 2 stamp now = (None, new_AlertManager)
   \<and> sr_alert (fst (submit_food_quality_review fm rid 2 aspects comments t t')) \<noteq> None
   \<and> sr_alert (fst (submit_room_quality_review fm rid room 2 aspects comments t t')) \<noteq> None"
  by (simp add: check_food_quality_alert_def check_room_quality_alert_def new_AlertManager_def
      submit_food_quality_review_def submit_room_quality_review_def Let_def)

section \<open>Acknowledging an alert\<close>

lemma acknowledge_first_found:
  "fst (acknowledge_first as aid u t) = (aid \<in> alert_id ` set as)"
  by (induction as) (auto simp: split_beta)

lemma acknowledge_first_ids:
  "map alert_id (snd (acknowledge_first as aid u t)) = map alert_id as"
  by (induction as) (auto simp: split_beta acknowledge_def)

lemma acknowledge_first_again:
  "snd (acknowledge_first (snd (acknowledge_first as aid u1 t1)) aid u2 t2)
     = snd (acknowledge_first as aid u2 t2)"
  by (induction as) (auto simp: split_beta acknowledge_def)

lemma acknowledge_first_find:
  "find (\<lambda>a. alert_id a = aid) (snd (acknowledge_first as aid u t))
     = map_option (\<lambda>a. acknowledge a u t) (find (\<lambda>a. alert_id a = aid) as)"
  by (induction as) (auto simp: split_beta acknowledge_def)

text \<open>
  Claim C4, as stated: acknowledging the same alert twice succeeds both times and the
  second call leaves \<open>acknowledged_at\<close> and \<open>acknowledged_by\<close> as the first call recorded
  them. On a manager holding one alert, acknowledged by alice at time 10 and then by bob
  at time 20, the second call replaces both fields.
\<close>

theorem acknowledge_alert_twice_counterexample:
  "acknowledged_by (hd (alerts (snd (acknowledge_alert
       (snd (create_alert new_AlertManager SYSTEM_ERROR LOW [] [] ''1'' 1))
       ''ALT_1'' ''alice'' 10)))) = Some ''alice''
   \<and> acknowledged_at (hd (alerts (snd (acknowledge_alert
       (snd (create_alert new_AlertManager SYSTEM_ERROR LOW [] [] ''1'' 1))
       ''ALT_1'' ''alice'' 10)))) = Some 10
   \<and> acknowledged_by (hd (alerts (snd (acknowledge_alert
       (snd (acknowledge_alert
          (snd (create_alert new_AlertManager SYSTEM_ERROR LOW [] [] ''1'' 1))
          ''ALT_1'' ''alice'' 10))
       ''ALT_1'' ''bob'' 20)))) = Some ''bob''
   \<and> acknowledged_at (hd (alerts (snd (acknowledge_alert
       (snd (acknowledge_alert
          (snd (create_alert new_AlertManager SYSTEM_ERROR LOW [] [] ''1'' 1))
          ''ALT_1'' ''alice'' 10))
       ''ALT_1'' ''bob'' 20)))) = Some 20"
  by (simp add: acknowledge_alert_def acknowledge_def create_alert_def new_Alert_def
      new_AlertManager_def Let_def)

text \<open>
  Claim C4, amended: acknowledging a stored alert id twice succeeds both times; every
  call overwrites \<open>acknowledged_at\<close> and \<open>acknowledged_by\<close>, so after the second call the
  manager is in the state a single acknowledgment by the second user at the second time
  would have produced, and the first alert with that id carries the second call's values.
\<close>

theorem acknowledge_alert_twice:
  assumes "aid \<in> alert_id ` set (alerts m)"
  shows "fst (acknowledge_alert m aid u1 t1)
       \<and> fst (acknowledge_alert (snd (acknowledge_alert m aid u1 t1)) aid u2 t2)
       \<and> snd (acknowledge_alert (snd (acknowledge_alert m aid u1 t1)) aid u2 t2)
           = snd (acknowledge_alert m aid u2 t2)
       \<and> find (\<lambda>a. alert_id a = aid)
            (alerts (snd (acknowledge_alert (snd (acknowledge_alert m aid u1 t1)) aid u2 t2)))
           = map_option (\<lambda>a. a\<lparr>acknowledged := True, acknowledged_at := Some t2,
                                  acknowledged_by := Some u2\<rparr>)
               (find (\<lambda>a. alert_id a = aid) (alerts m))"
proof -
  have ids: "aid \<in> alert_id ` set (snd (acknowledge_first (alerts m) aid u1 t1))"
    using assms acknowledge_first_ids [of "alerts m" aid u1 t1]
    by (metis list.set_map)
  show ?thesis
    using assms ids
    by (simp add: acknowledge_alert_def split_beta acknowledge_first_found
        acknowledge_first_again acknowledge_first_find acknowledge_def)
qed

theorem acknowledge_alert_twice_witness:
  "''ALT_1'' \<in> alert_id ` set (alerts (snd (create_alert new_AlertManager SYSTEM_ERROR LOW [] [] ''1'' 1)))
   \<and> fst (acknowledge_alert
        (snd (acknowledge_alert
           (snd (create_alert new_AlertManager SYSTEM_ERROR LOW [] [] ''1'' 1))
           ''ALT_1'' ''alice'' 10))
        ''ALT_1'' ''bob'' 20)
   \<and> snd (acknowledge_alert
        (snd (acknowledge_alert
           (snd (create_alert new_AlertManager SYSTEM_ERROR LOW [] [] ''1'' 1))
           ''ALT_1'' ''alice'' 10))
        ''ALT_1'' ''bob'' 20)
     = snd (acknowledge_alert
        (snd (create_alert new_AlertManager SYSTEM_ERROR LOW [] [] ''1'' 1))
        ''ALT_1'' ''bob'' 20)"
proof -
  have stored: "''ALT_1'' \<in> alert_id `
      set (alerts (snd (create_alert new_AlertManager SYSTEM_ERROR LOW [] [] ''1'' 1)))"
    by (simp add: create_alert_def new_Alert_def new_AlertManager_def Let_def)
  show ?thesis
    using stored acknowledge_alert_twice [OF stored, of "''alice''" 10 "''bob''" 20]
    by simp
qed

section \<open>Burnout risk\<close>

lemma calculate_burnout_risk_returns:
  "cutoff_date now days_window = Inr cutoff \<Longrightarrow>
   \<exists>b. calculate_burnout_risk da doctor days_window now = Inr b"
  by (simp add: calculate_burnout_risk_def Let_def)

text \<open>On a non-empty window the reported score is the rounded sum of the three factors,
  taken at the per-shift averages of the window.\<close>

lemma calculate_burnout_risk_score:
  assumes "cutoff_date now days_window = Inr cutoff"
    and "recent = filter (\<lambda>s. cutoff < shift_timestamp s) (duty_logs da doctor)"
    and "recent \<noteq> []"
  shows "map_sum id risk_score (calculate_burnout_risk da doctor days_window now) =
           Inr (py_round
                  (burnout_score (sum_list (map hours recent) / real (length recent))
                     (of_int (sum_list (map patient_count recent)) / real (length recent))
                     (of_int (sum_list (map emergency_cases recent)) / real (length recent)))
                  3)"
proof -
  have "duty_logs da doctor \<noteq> []"
    using assms(2,3) by auto
  then show ?thesis
    using assms by (simp add: calculate_burnout_risk_def Let_def)
qed

text \<open>
  Claim C5, as stated: whenever no shift of the doctor falls in the trailing window the
  report has the level NO\_DATA and the score 0. A doctor whose only shift was logged 40
  days before a query over 30 days gets the level LOW, the level of an ordinary low-risk
  result.
\<close>

theorem calculate_burnout_risk_stale_counterexample:
  "calculate_burnout_risk
     (register_duty_shift new_DoctorAnalyzer ''D1'' ''2026-01-01'' 8 10 0 63900000000000000)
     ''D1'' 30 63903456000000000
   = Inr \<lparr>b_doctor_id = ''D1'', risk_level = ''LOW'', risk_score = 0, metrics = None,
          recommendations = None\<rparr>"
  by (simp add: calculate_burnout_risk_def register_duty_shift_def new_DoctorAnalyzer_def
      cutoff_date_def timedelta_days_def datetime_sub_def datetime_max_def Let_def)

text \<open>
  Claim C5, amended: a doctor with no logged shift at all gets, for every window, the
  report with level NO\_DATA, score 0 and empty metrics; a doctor with logged shifts of
  which none falls in the window (the start of the window being a representable date)
  gets the report with level LOW, score 0 and empty metrics.
\<close>

theorem calculate_burnout_risk_empty_window:
  assumes "duty_logs da doctor = [] \<or>
           (cutoff_date now days_window = Inr cutoff \<and>
            filter (\<lambda>s. cutoff < shift_timestamp s) (duty_logs da doctor) = [])"
  shows "calculate_burnout_risk da doctor days_window now =
           Inr \<lparr>b_doctor_id = doctor,
                risk_level = (if duty_logs da doctor = [] then ''NO_DATA'' else ''LOW''),
                risk_score = 0, metrics = None, recommendations = None\<rparr>"
  using assms by (auto simp add: calculate_burnout_risk_def Let_def)

theorem calculate_burnout_risk_empty_window_witness:
  "cutoff_date 63903456000000000 30 = Inr 63900864000000000
   \<and> filter (\<lambda>s. 63900864000000000 < shift_timestamp s)
        (duty_logs
           (register_duty_shift new_DoctorAnalyzer ''D1'' ''2026-01-01'' 8 10 0 63900000000000000)
           ''D1'') = []
   \<and> map_sum id risk_level
        (calculate_burnout_risk
           (register_duty_shift new_DoctorAnalyzer ''D1'' ''2026-01-01'' 8 10 0 63900000000000000)
           ''D1'' 30 63903456000000000) = Inr ''LOW''
   \<and> map_sum id risk_level
        (calculate_burnout_risk new_DoctorAnalyzer ''D1'' 30 63903456000000000) = Inr ''NO_DATA''"
proof -
  have window: "cutoff_date 63903456000000000 30 = Inr 63900864000000000"
    by (simp add: cutoff_date_def timedelta_days_def datetime_sub_def datetime_max_def)
  have stale: "filter (\<lambda>s. 63900864000000000 < shift_timestamp s)
        (duty_logs
           (register_duty_shift new_DoctorAnalyzer ''D1'' ''2026-01-01'' 8 10 0 63900000000000000)
           ''D1'') = []"
    by (simp add: register_duty_shift_def new_DoctorAnalyzer_def Let_def)
  have logged: "duty_logs
           (register_duty_shift new_DoctorAnalyzer ''D1'' ''2026-01-01'' 8 10 0 63900000000000000)
           ''D1'' \<noteq> []"
    by (simp add: register_duty_shift_def new_DoctorAnalyzer_def Let_def)
  have none: "duty_logs new_DoctorAnalyzer ''D1'' = []"
    by (simp add: new_DoctorAnalyzer_def)
  show ?thesis
    using window stale logged none
      calculate_burnout_risk_empty_window [OF disjI2, OF conjI, OF window stale]
      calculate_burnout_risk_empty_window [OF disjI1, OF none, of 30 63903456000000000]
    by simp
qed

text \<open>
  Claim C9. The burnout score, the sum of the hours, patient and emergency factors, is
  monotonically non-decreasing in the average hours per shift, in the average patients per
  shift and in the average emergencies per shift, each with the other two held fixed.
\<close>

theorem burnout_score_monotone:
  "(h \<le> h' \<longrightarrow> burnout_score h p e \<le> burnout_score h' p e)
   \<and> (p \<le> p' \<longrightarrow> burnout_score h p e \<le> burnout_score h p' e)
   \<and> (e \<le> e' \<longrightarrow> burnout_score h p e \<le> burnout_score h p e')"
  by (auto simp add: burnout_score_def hours_factor_def patient_factor_def emergency_factor_def
      min_def)

theorem burnout_score_monotone_witness:
  "(8::real) \<le> 10 \<and> (20::real) \<le> 25 \<and> (1::real) \<le> 2
   \<and> burnout_score 8 20 1 \<le> burnout_score 10 20 1
   \<and> burnout_score 8 20 1 \<le> burnout_score 8 25 1
   \<and> burnout_score 8 20 1 \<le> burnout_score 8 20 2"
  using burnout_score_monotone [of 8 10 20 1 25 2] by simp

text \<open>The score reported in the risk report is the rounded sum, and rounding keeps the
  order.\<close>

lemma burnout_risk_score_monotone:
  assumes "h \<le> h'" and "p \<le> p'" and "e \<le> e'"
  shows "py_round (burnout_score h p e) 3 \<le> py_round (burnout_score h' p' e') 3"
proof -
  have "burnout_score h p e \<le> burnout_score h' p e"
    using assms(1) by (simp add: burnout_score_def hours_factor_def min_def)
  also have "\<dots> \<le> burnout_score h' p' e"
    using assms(2) by (simp add: burnout_score_def patient_factor_def min_def)
  also have "\<dots> \<le> burnout_score h' p' e'"
    using assms(3) by (simp add: burnout_score_def emergency_factor_def min_def)
  finally show ?thesis
    by (rule py_round_mono)
qed

section \<open>Doctor rating and performance\<close>

lemma mean_between:
  fixes xs :: "real list"
  assumes "xs \<noteq> []" and "\<forall>x \<in> set xs. a \<le> x \<and> x \<le> b"
  shows "a \<le> sum_list xs / real (length xs) \<and> sum_list xs / real (length xs) \<le> b"
proof -
  have pos: "0 < real (length xs)"
    using assms(1) by simp
  have "sum_list (map (\<lambda>_. a) xs) \<le> sum_list (map (\<lambda>x. x) xs)"
    using assms(2) by (intro sum_list_mono) simp
  then have lo: "real (length xs) * a \<le> sum_list xs"
    by (simp add: sum_list_triv)
  have "sum_list (map (\<lambda>x. x) xs) \<le> sum_list (map (\<lambda>_. b) xs)"
    using assms(2) by (intro sum_list_mono) simp
  then have hi: "sum_list xs \<le> real (length xs) * b"
    by (simp add: sum_list_triv)
  show ?thesis
    using lo hi pos by (simp add: pos_le_divide_eq pos_divide_le_eq mult.commute)
qed

lemma to_rating_between: "- 1 \<le> a \<Longrightarrow> a \<le> 1 \<Longrightarrow> 1 \<le> to_rating a \<and> to_rating a \<le> 5"
  by (simp add: to_rating_def)

text \<open>A doctor with samples, all in the range of the sentiment score, is rated on the
  scale from 1 to 5.\<close>

lemma get_doctor_rating_scale:
  assumes "sentiment_scores da doctor \<noteq> []"
    and "\<forall>s \<in> set (sentiment_scores da doctor). - 1 \<le> score s \<and> score s \<le> 1"
  shows "1 \<le> rating (get_doctor_rating da doctor) \<and> rating (get_doctor_rating da doctor) \<le> 5"
proof -
  let ?xs = "map score (sentiment_scores da doctor)"
  have "?xs \<noteq> []" and "\<forall>x \<in> set ?xs. - 1 \<le> x \<and> x \<le> 1"
    using assms by auto
  then have "- 1 \<le> sum_list ?xs / real (length ?xs) \<and> sum_list ?xs / real (length ?xs) \<le> 1"
    by (rule mean_between)
  then have "of_int 1 \<le> to_rating (sum_list ?xs / real (length ?xs))"
    and "to_rating (sum_list ?xs / real (length ?xs)) \<le> of_int 5"
    using to_rating_between [of "sum_list ?xs / real (length ?xs)"] by simp_all
  then have "of_int 1 \<le> py_round (to_rating (sum_list ?xs / real (length ?xs))) 2
      \<and> py_round (to_rating (sum_list ?xs / real (length ?xs))) 2 \<le> of_int 5"
    by (rule py_round_between)
  then show ?thesis
    using assms(1) by (simp add: get_doctor_rating_def Let_def)
qed

text \<open>
  Claim C10. For a doctor with no tracked sentiment sample \<open>get_doctor_rating\<close> returns the
  rating 0, 0 reviews and an empty distribution; the rating 0 lies outside the scale from 1
  to 5; and the performance dashboard of such a doctor (read at a clock at least 30 days
  after the first representable date) is produced with the rating term
  \<open>(0 / 5 * 100) * 0.5\<close>, that is with no contribution of the rating.
\<close>

theorem get_doctor_rating_no_samples:
  assumes "sentiment_scores da doctor = []"
    and "30 * 86400000000 \<le> now" and "now \<le> datetime_max"
  shows "get_doctor_rating da doctor =
           \<lparr>rt_doctor_id = doctor, rating = 0, rt_total_reviews = 0,
            average_sentiment_score = None, rating_distribution = [], status = None\<rparr>
       \<and> \<not> (1 \<le> rating (get_doctor_rating da doctor) \<and> rating (get_doctor_rating da doctor) \<le> 5)
       \<and> (\<exists>b. calculate_burnout_risk da doctor 30 now = Inr b
              \<and> get_doctor_performance_dashboard da doctor now now' =
                  Inr \<lparr>pd_doctor_id = doctor,
                       overall_performance_score =
                         py_round ((0 / 5 * 100) * 0.5 + ((1 - risk_score b) * 100) * 0.3
                           + (100 - min (real (total_complaints (get_complaint_history da doctor)) * 5)
                                      100) * 0.2) 2,
                       burnout_analysis = b,
                       complaint_analysis = get_complaint_history da doctor,
                       patient_rating = get_doctor_rating da doctor,
                       dashboard_generated = now'\<rparr>)"
proof -
  have zero: "get_doctor_rating da doctor =
           \<lparr>rt_doctor_id = doctor, rating = 0, rt_total_reviews = 0,
            average_sentiment_score = None, rating_distribution = [], status = None\<rparr>"
    using assms(1) by (simp add: get_doctor_rating_def)
  have "0 \<le> now"
    using assms(2) by simp
  then have "cutoff_date now 30 = Inr (now - 30 * 86400000000)"
    using assms(2,3) by (intro cutoff_date_representable) simp_all
  then obtain b where b: "calculate_burnout_risk da doctor 30 now = Inr b"
    using calculate_burnout_risk_returns by blast
  have "get_doctor_performance_dashboard da doctor now now' =
                  Inr \<lparr>pd_doctor_id = doctor,
                       overall_performance_score =
                         py_round ((0 / 5 * 100) * 0.5 + ((1 - risk_score b) * 100) * 0.3
                           + (100 - min (real (total_complaints (get_complaint_history da doctor)) * 5)
                                      100) * 0.2) 2,
                       burnout_analysis = b,
                       complaint_analysis = get_complaint_history da doctor,
                       patient_rating = get_doctor_rating da doctor,
                       dashboard_generated = now'\<rparr>"
    using b zero by (simp add: get_doctor_performance_dashboard_def performance_score_def Let_def)
  with b zero show ?thesis
    by simp
qed

theorem get_doctor_rating_no_samples_witness:
  "sentiment_scores (track_sentiment new_DoctorAnalyzer ''D2'' 0.5 None 63900000000000000) ''D1'' = []
   \<and> (30 * 86400000000 :: int) \<le> 63900000000000000
   \<and> 63900000000000000 \<le> datetime_max
   \<and> rating (get_doctor_rating
        (track_sentiment new_DoctorAnalyzer ''D2'' 0.5 None 63900000000000000) ''D1'') = 0
   \<and> rating (get_doctor_rating
        (track_sentiment new_DoctorAnalyzer ''D2'' 0.5 None 63900000000000000) ''D2'') = 4"
proof -
  have none: "sentiment_scores
      (track_sentiment new_DoctorAnalyzer ''D2'' 0.5 None 63900000000000000) ''D1'' = []"
    by (simp add: track_sentiment_def new_DoctorAnalyzer_def)
  have early: "(30 * 86400000000 :: int) \<le> 63900000000000000"
    by simp
  have late: "63900000000000000 \<le> datetime_max"
    by (simp add: datetime_max_def)
  have "py_round 4 2 = 4"
    using py_round_of_int [of 4 2] by simp
  then have other: "rating (get_doctor_rating
        (track_sentiment new_DoctorAnalyzer ''D2'' 0.5 None 63900000000000000) ''D2'') = 4"
    by (simp add: get_doctor_rating_def track_sentiment_def new_DoctorAnalyzer_def to_rating_def
        Let_def)
  show ?thesis
    using none early late other get_doctor_rating_no_samples [OF none early late]
    by simp
qed

section \<open>Sentiment trends\<close>




section \<open>Sentiment fusion and label\<close>





text \<open>The decision reads the fused score, the report carries its rounding: a fused score
  of 0.3004 is labelled POSITIVE and reported as 0.3.\<close>

lemma comprehensive_analysis_label_before_rounding:
  "a_sentiment_label
     (comprehensive_analysis
        \<lparr>HAS_GOOGLETRANS = False, sa_translator = None,
         vader_polarity_scores =
           (\<lambda>_. \<lparr>compound = 0.751, vs_positive = 0.6, vs_negative = 0, vs_neutral = 0.4\<rparr>),
         textblob_sentiment = (\<lambda>_. \<lparr>polarity = 0, subjectivity = 0.5\<rparr>),
         transformer = None\<rparr>
        ''good'') = ''POSITIVE''
   \<and> overall_score
     (comprehensive_analysis
        \<lparr>HAS_GOOGLETRANS = False, sa_translator = None,
         vader_polarity_scores =
           (\<lambda>_. \<lparr>compound = 0.751, vs_positive = 0.6, vs_negative = 0, vs_neutral = 0.4\<rparr>),
         textblob_sentiment = (\<lambda>_. \<lparr>polarity = 0, subjectivity = 0.5\<rparr>),
         transformer = None\<rparr>
        ''good'') = 0.3"
  by (simp add: Let_def comprehensive_analysis_def detect_language_def translate_to_english_def
      analyze_with_transformer_def py_round_def round_half_even_def)



section \<open>Issue clustering\<close>

lemma dict_incr_fst:
  "map fst (dict_incr k al) =
     (if k \<in> set (map fst al) then map fst al else map fst al @ [k])"
  by (induction al) force+

lemma dict_incr_keys: "fst ` set (dict_incr k al) = insert k (fst ` set al)"
proof -
  have "set (map fst (dict_incr k al)) = insert k (set (map fst al))"
    unfolding dict_incr_fst by auto
  then show ?thesis
    by simp
qed

lemma dict_incr_distinct: "distinct (map fst al) \<Longrightarrow> distinct (map fst (dict_incr k al))"
  unfolding dict_incr_fst by simp

lemma dict_incr_map_of:
  "map_of (dict_incr k al) =
     (map_of al)(k \<mapsto> (case map_of al k of None \<Rightarrow> 1 | Some n \<Rightarrow> n + 1))"
  by (induction al) (auto simp: fun_eq_iff)

lemma fold_dict_incr_keys: "fst ` set (fold dict_incr ks al) = set ks \<union> fst ` set al"
  by (induction ks arbitrary: al) (auto simp: dict_incr_keys)

lemma fold_dict_incr_distinct:
  "distinct (map fst al) \<Longrightarrow> distinct (map fst (fold dict_incr ks al))"
  by (induction ks arbitrary: al) (auto simp: dict_incr_distinct)

lemma map_of_in_keys: "(map_of al k = None) = (k \<notin> fst ` set al)"
  by (simp add: map_of_eq_None_iff)

lemma fold_dict_incr_map_of:
  "map_of (fold dict_incr ks al) k =
     (if k \<in> set ks \<or> k \<in> fst ` set al
      then Some (count_list ks k + (case map_of al k of None \<Rightarrow> 0 | Some n \<Rightarrow> n))
      else None)"
proof (induction ks arbitrary: al)
  case Nil
  show ?case
  proof (cases "map_of al k")
    case None
    then have "k \<notin> fst ` set al"
      by (simp add: map_of_in_keys)
    with None show ?thesis
      by simp
  next
    case (Some n)
    then have "k \<in> fst ` set al"
      using map_of_in_keys [of al k] by simp
    with Some show ?thesis
      by simp
  qed
next
  case (Cons a ks)
  show ?case
  proof (cases "map_of al k")
    case None
    then have "k \<notin> fst ` set al"
      by (simp add: map_of_in_keys)
    with None show ?thesis
      by (simp add: Cons.IH dict_incr_keys dict_incr_map_of)
  next
    case (Some n)
    then have "k \<in> fst ` set al"
      using map_of_in_keys [of al k] by simp
    with Some show ?thesis
      by (simp add: Cons.IH dict_incr_keys dict_incr_map_of)
  qed
qed

lemma fold_fold_concat: "fold (fold f) xss a = fold f (concat xss) a"
  by (induction xss arbitrary: a) simp_all

lemma count_keywords_concat:
  "count_keywords rs = fold dict_incr (concat (map review_keywords rs)) []"
  by (simp add: count_keywords_def fold_fold_concat [symmetric] fold_map comp_def)

lemma sorted_le_last: "sorted xs \<Longrightarrow> x \<in> set xs \<Longrightarrow> x \<le> last xs"
  by (induction xs) auto

lemma count_list_distinct: "distinct xs \<Longrightarrow> count_list xs k = (if k \<in> set xs then 1 else 0)"
  by (induction xs) auto

lemma count_list_keywords:
  "\<forall>r \<in> set rs. distinct (review_keywords r) \<Longrightarrow>
   count_list (concat (map review_keywords rs)) k
     = length (filter (\<lambda>r. k \<in> set (review_keywords r)) rs)"
  by (induction rs) (auto simp: count_list_distinct)

lemma count_keywords_entry:
  assumes "\<forall>r \<in> set rs. distinct (review_keywords r)"
  shows "((k, n) \<in> set (count_keywords rs)) =
           ((\<exists>r \<in> set rs. k \<in> set (review_keywords r))
            \<and> n = length (filter (\<lambda>r. k \<in> set (review_keywords r)) rs))"
proof -
  have "distinct (map fst (count_keywords rs))"
    by (simp add: count_keywords_concat fold_dict_incr_distinct)
  then have "((k, n) \<in> set (count_keywords rs)) = (map_of (count_keywords rs) k = Some n)"
    by simp
  also have "\<dots> = ((\<exists>r \<in> set rs. k \<in> set (review_keywords r))
            \<and> n = length (filter (\<lambda>r. k \<in> set (review_keywords r)) rs))"
    using assms
    by (auto simp: count_keywords_concat fold_dict_incr_map_of count_list_keywords)
  finally show ?thesis .
qed

lemma sorted_reverse_hd:
  assumes "e \<in> set al" and "\<forall>x \<in> set al. x \<noteq> e \<longrightarrow> f x < f e"
  shows "hd (sorted_reverse f al) = e"
proof -
  let ?ys = "sort_key f (rev al)"
  have ne: "?ys \<noteq> []"
    using assms(1) by (metis empty_iff list.set(1) set_rev set_sort)
  have mem: "last ?ys \<in> set al"
    using last_in_set [OF ne] by simp
  have "sorted (map f ?ys)"
    by simp
  moreover have "f e \<in> set (map f ?ys)"
    using assms(1) by simp
  ultimately have "f e \<le> last (map f ?ys)"
    by (rule sorted_le_last)
  then have "f e \<le> f (last ?ys)"
    by (simp add: last_map ne)
  then have "last ?ys = e"
    using assms(2) mem by fastforce
  then show ?thesis
    by (simp add: sorted_reverse_def hd_rev)
qed

lemma dict_set_fresh: "k \<notin> fst ` set m \<Longrightarrow> dict_set k v m = m @ [(k, v)]"
  by (induction m) auto

lemma keyword_map_fold:
  "distinct (map review_id rs) \<Longrightarrow> set (map review_id rs) \<inter> fst ` set m = {} \<Longrightarrow>
   fold (\<lambda>r m. dict_set (review_id r) (review_keywords r) m) rs m
     = m @ map (\<lambda>r. (review_id r, review_keywords r)) rs"
proof (induction rs arbitrary: m)
  case Nil
  then show ?case by simp
next
  case (Cons r rs)
  have fresh: "review_id r \<notin> fst ` set m"
    using Cons.prems(2) by auto
  have "set (map review_id rs) \<inter> fst ` set (m @ [(review_id r, review_keywords r)]) = {}"
    using Cons.prems by auto
  then show ?case
    using Cons.IH [of "m @ [(review_id r, review_keywords r)]"] Cons.prems(1)
    by (simp add: dict_set_fresh [OF fresh])
qed

lemma keyword_map_distinct:
  "distinct (map review_id rs) \<Longrightarrow>
   keyword_map rs = map (\<lambda>r. (review_id r, review_keywords r)) rs"
  using keyword_map_fold [of rs "[]"] by (simp add: keyword_map_def)

lemma related_reviews_distinct_ids:
  "map fst (filter (\<lambda>(rid, kws). k \<in> set kws) (map (\<lambda>r. (review_id r, review_keywords r)) rs))
     = map review_id (filter (\<lambda>r. k \<in> set (review_keywords r)) rs)"
  by (induction rs) auto

lemma make_cluster_distinct_ids:
  assumes "distinct (map review_id rs)"
  shows "make_cluster (keyword_map rs) (i, k, n) =
           \<lparr>cluster_id = i + 1, primary_issue = k, frequency = n,
            related_reviews = map review_id (filter (\<lambda>r. k \<in> set (review_keywords r)) rs),
            ic_severity = calculate_cluster_severity
                            (map review_id (filter (\<lambda>r. k \<in> set (review_keywords r)) rs)),
            recommendation = get_cluster_recommendation k\<rparr>"
  by (simp add: make_cluster_def keyword_map_distinct [OF assms] related_reviews_distinct_ids
      Let_def)

lemma wait_recommendation:
  "get_cluster_recommendation ''wait'' = ''Review process efficiency and resource allocation''"
  by (simp add: get_cluster_recommendation_def lower_def lower_char_def)

lemma cluster_issues_negative:
  assumes "3 \<le> length reviews"
    and "filter (\<lambda>r. sentiment_label r = ''NEGATIVE'') reviews = negative"
    and "negative \<noteq> []"
  shows "clusters (cluster_issues reviews 5) =
           map (make_cluster (keyword_map negative))
             (zip [0 ..< length (take 5 (sorted_reverse snd (count_keywords negative)))]
                  (take 5 (sorted_reverse snd (count_keywords negative))))"
  using assms by (simp add: cluster_issues_def slice_to_def Let_def)

text \<open>
  Claim C7, as stated: on a ledger of six NEGATIVE reviews that all contain the keyword
  \<open>wait\<close> and share no other keyword, \<open>cluster_issues\<close> with at most 5 clusters returns
  exactly one cluster. On the example ledger, where every review carries one keyword of
  its own besides \<open>wait\<close>, it returns five clusters: one per keyword, in descending
  frequency, cut at 5.
\<close>

theorem cluster_issues_wait_counterexample:
  "map primary_issue (clusters (cluster_issues wait_ledger 5))
     = [''wait'', ''long'', ''hours'', ''queue'', ''forever'']"
  by (simp add: wait_ledger_def cluster_issues_def count_keywords_def keyword_map_def
      sorted_reverse_def slice_to_def make_cluster_def Let_def upt_rec)

text \<open>
  Claim C7, amended: on a ledger whose NEGATIVE reviews are six reviews with distinct ids
  that all contain the keyword \<open>wait\<close>, repeat no keyword within a review and share no
  other keyword, \<open>cluster_issues\<close> with at most 5 clusters returns the \<open>wait\<close> cluster
  first, with cluster id 1, frequency 6, all six reviews related, severity HIGH and the
  wait-time recommendation; it is followed by one cluster of frequency 1 and severity LOW
  for each further keyword, up to 5 clusters in all (the number of distinct keywords when
  that is smaller), so it is the only cluster exactly when \<open>wait\<close> is the only keyword.
\<close>

theorem cluster_issues_wait:
  assumes neg: "filter (\<lambda>r. sentiment_label r = ''NEGATIVE'') reviews = negative"
    and six: "length negative = 6"
    and ids: "distinct (map review_id negative)"
    and wait: "\<forall>r \<in> set negative. ''wait'' \<in> set (review_keywords r)"
    and once: "\<forall>r \<in> set negative. distinct (review_keywords r)"
    and unshared: "\<forall>k. k \<noteq> ''wait'' \<longrightarrow>
                     length (filter (\<lambda>r. k \<in> set (review_keywords r)) negative) \<le> 1"
  shows "clusters (cluster_issues reviews 5) \<noteq> []
       \<and> hd (clusters (cluster_issues reviews 5)) =
           \<lparr>cluster_id = 1, primary_issue = ''wait'', frequency = 6,
            related_reviews = map review_id negative, ic_severity = ''HIGH'',
            recommendation = ''Review process efficiency and resource allocation''\<rparr>
       \<and> length (clusters (cluster_issues reviews 5)) =
           min 5 (card (\<Union>r \<in> set negative. set (review_keywords r)))
       \<and> (\<forall>c \<in> set (tl (clusters (cluster_issues reviews 5))).
             frequency c = 1 \<and> ic_severity c = ''LOW'')"
proof -
  let ?al = "count_keywords negative"
  let ?sorted = "sorted_reverse snd ?al"
  let ?top = "take 5 ?sorted"
  let ?n = "\<lambda>k. length (filter (\<lambda>r. k \<in> set (review_keywords r)) negative)"
  have nonempty: "negative \<noteq> []"
    using six by auto
  have "length negative \<le> length reviews"
    using neg length_filter_le by metis
  then have enough: "3 \<le> length reviews"
    using six by simp
  have all: "filter (\<lambda>r. ''wait'' \<in> set (review_keywords r)) negative = negative"
    using wait by simp
  have entry: "\<And>k n. ((k, n) \<in> set ?al) =
                 ((\<exists>r \<in> set negative. k \<in> set (review_keywords r)) \<and> n = ?n k)"
    by (rule count_keywords_entry [OF once])
  have some: "\<exists>r. r \<in> set negative"
    using nonempty by (cases negative) auto
  have first: "(''wait'', 6) \<in> set ?al"
    using some wait six by (auto simp: entry all)
  have others: "\<forall>x \<in> set ?al. x \<noteq> (''wait'', 6) \<longrightarrow> snd x < snd (''wait'', 6 :: nat)"
  proof (intro ballI impI)
    fix x assume x: "x \<in> set ?al" and ne: "x \<noteq> (''wait'', 6)"
    obtain k n where kn: "x = (k, n)"
      by (cases x)
    have n: "n = ?n k"
      using x entry kn by simp
    have "k \<noteq> ''wait''"
      using n ne kn all six by auto
    then have "n \<le> 1"
      using unshared n by simp
    then show "snd x < snd (''wait'', 6 :: nat)"
      using kn by simp
  qed
  have hd_sorted: "hd ?sorted = (''wait'', 6)"
    by (rule sorted_reverse_hd [OF first others])
  have set_sorted: "set ?sorted = set ?al"
    by (simp add: sorted_reverse_def)
  have distinct_al: "distinct (map fst ?al)"
    by (simp add: count_keywords_concat fold_dict_incr_distinct)
  have distinct_sorted: "distinct ?sorted"
    using distinct_al by (simp add: sorted_reverse_def distinct_map)
  have sorted_ne: "?sorted \<noteq> []"
    using first set_sorted by auto
  then obtain rest where rest: "?sorted = (''wait'', 6) # rest"
    using hd_sorted by (cases ?sorted) auto
  have top: "?top = (''wait'', 6) # take 4 rest"
    by (simp add: rest)
  have cl: "clusters (cluster_issues reviews 5) =
           map (make_cluster (keyword_map negative)) (zip [0 ..< length ?top] ?top)"
    by (rule cluster_issues_negative [OF enough neg nonempty])
  have upt: "[0 ..< length ?top] = 0 # [1 ..< length ?top]"
    by (simp add: top upt_rec)
  have cl': "clusters (cluster_issues reviews 5) =
      make_cluster (keyword_map negative) (0, ''wait'', 6)
      # map (make_cluster (keyword_map negative)) (zip [1 ..< length ?top] (take 4 rest))"
    unfolding cl upt unfolding top by simp
  have head: "make_cluster (keyword_map negative) (0, ''wait'', 6) =
           \<lparr>cluster_id = 1, primary_issue = ''wait'', frequency = 6,
            related_reviews = map review_id negative, ic_severity = ''HIGH'',
            recommendation = ''Review process efficiency and resource allocation''\<rparr>"
    by (simp add: make_cluster_distinct_ids [OF ids] all six calculate_cluster_severity_def
        wait_recommendation)
  have len_al: "length ?al = card (\<Union>r \<in> set negative. set (review_keywords r))"
  proof -
    have "length ?al = length (map fst ?al)"
      by simp
    also have "\<dots> = card (set (map fst ?al))"
      using distinct_card [OF distinct_al] by simp
    also have "set (map fst ?al) = (\<Union>r \<in> set negative. set (review_keywords r))"
      using fold_dict_incr_keys [of "concat (map review_keywords negative)" "[]"]
      by (simp add: count_keywords_concat)
    finally show ?thesis .
  qed
  have len: "length (clusters (cluster_issues reviews 5)) =
           min 5 (card (\<Union>r \<in> set negative. set (review_keywords r)))"
    unfolding cl by (simp add: sorted_reverse_def len_al [symmetric] min.commute)
  have tail: "\<forall>c \<in> set (tl (clusters (cluster_issues reviews 5))).
             frequency c = 1 \<and> ic_severity c = ''LOW''"
  proof
    fix c assume "c \<in> set (tl (clusters (cluster_issues reviews 5)))"
    then obtain i k n where c: "c = make_cluster (keyword_map negative) (i, k, n)"
      and mem: "(k, n) \<in> set (take 4 rest)"
      unfolding cl' by (auto dest: set_zip_rightD)
    have in_rest: "(k, n) \<in> set rest"
      using mem by (rule in_set_takeD)
    then have in_al: "(k, n) \<in> set ?al"
      using set_sorted rest by (metis list.set_intros(2))
    have "(k, n) \<noteq> (''wait'', 6)"
      using distinct_sorted rest in_rest by auto
    then have "n < 6"
      using others in_al by fastforce
    have n: "n = ?n k" and ex: "\<exists>r \<in> set negative. k \<in> set (review_keywords r)"
      using in_al entry by simp_all
    have "k \<noteq> ''wait''"
      using n \<open>n < 6\<close> all six by auto
    then have le: "?n k \<le> 1"
      using unshared by simp
    have pos: "0 < ?n k"
      using ex by (simp add: filter_empty_conv)
    from le pos have one: "?n k = 1"
      by linarith
    show "frequency c = 1 \<and> ic_severity c = ''LOW''"
      using one n
      by (simp add: c make_cluster_distinct_ids [OF ids] calculate_cluster_severity_def)
  qed
  show ?thesis
    using cl' head len tail by simp
qed

theorem cluster_issues_wait_witness:
  "filter (\<lambda>r. sentiment_label r = ''NEGATIVE'') wait_ledger = wait_ledger
   \<and> length wait_ledger = 6
   \<and> distinct (map review_id wait_ledger)
   \<and> list_all (\<lambda>r. ''wait'' \<in> set (review_keywords r) \<and> distinct (review_keywords r))
         wait_ledger
   \<and> hd (clusters (cluster_issues wait_ledger 5)) =
        \<lparr>cluster_id = 1, primary_issue = ''wait'', frequency = 6,
         related_reviews = [''r1'', ''r2'', ''r3'', ''r4'', ''r5'', ''r6''],
         ic_severity = ''HIGH'',
         recommendation = ''Review process efficiency and resource allocation''\<rparr>"
proof -
  have neg: "filter (\<lambda>r. sentiment_label r = ''NEGATIVE'') wait_ledger = wait_ledger"
    by (simp add: wait_ledger_def)
  have six: "length wait_ledger = 6"
    by (simp add: wait_ledger_def)
  have ids: "distinct (map review_id wait_ledger)"
    by (simp add: wait_ledger_def)
  have wait: "\<forall>r \<in> set wait_ledger. ''wait'' \<in> set (review_keywords r)"
    by (simp add: wait_ledger_def)
  have once: "\<forall>r \<in> set wait_ledger. distinct (review_keywords r)"
    by (simp add: wait_ledger_def)
  have unshared: "\<forall>k. k \<noteq> ''wait'' \<longrightarrow>
      length (filter (\<lambda>r. k \<in> set (review_keywords r)) wait_ledger) \<le> 1"
    by (auto simp add: wait_ledger_def)
  have related: "map review_id wait_ledger = [''r1'', ''r2'', ''r3'', ''r4'', ''r5'', ''r6'']"
    by (simp add: wait_ledger_def)
  show ?thesis
    using neg six ids wait once related
      cluster_issues_wait [OF neg six ids wait once unshared]
    by (simp add: list_all_iff)
qed

end
